theory Spec2Isabelle
  imports
    Complex_Main
    "HOL-Library.Sublist"
    "HOL-Library.AList"
    "HOL-Library.Multiset"
    "HOL-Library.Char_ord"
    "HOL-Library.List_Lexorder"
    "HOL-Library.Product_Lexorder"
begin

section \<open>IDE backend (IDE/backend/main.py): shallow embedding\<close>

text \<open>
  The backend is one Python module. Its handlers fall into three groups, and the
  embedding follows them:
  \<^item> workspace files: \<open>safe_workspace_path\<close>, \<open>list_directory\<close>, \<open>open_file\<close>,
    \<open>save_file\<close>, \<open>upload_files\<close>, over a file tree passed explicitly;
  \<^item> one-shot execution: \<open>_run_subprocess\<close>, \<open>run_python\<close>, \<open>run_code\<close>, over a host
    that answers every spawn, with the trace of what was spawned;
  \<^item> the interactive session \<open>ws_python\<close> and its \<open>pump\<close> tasks, as a machine
    that consumes what the channel and the subprocess deliver.

  Python \<open>str\<close> is \<^typ>\<open>string\<close>. The library functions \<open>str.lower\<close> and
  \<open>str.strip\<close> are modelled on the ASCII range, where they are exact; characters
  beyond it are left alone. Encoding to UTF-8 and decoding back is the identity on
  text, so content is kept as text throughout.
\<close>

subsection \<open>Exceptions\<close>

datatype os_error =
  FileNotFoundError
  | FileExistsError
  | NotADirectoryError
  | IsADirectoryError
  | ConnectionResetError
  | OtherOSError

text \<open>
  \<open>HTTPException(status_code, detail)\<close>: the detail is a literal of the source or
  \<open>str(e)\<close> of a caught exception.
\<close>

datatype detail = Literal string | StrOf os_error

datatype exn =
  HTTPException nat detail
  | ValueError
  | TypeError
  | OSError os_error
  | OtherError

subsection \<open>Strings\<close>

definition LF :: char where
  "LF = CHR 0x0A"

definition CR :: char where
  "CR = CHR 0x0D"

definition NUL :: char where
  "NUL = CHR 0x00"

text \<open>\<open>str.lower\<close>: the letters \<open>A\<close> to \<open>Z\<close> move to \<open>a\<close> to \<open>z\<close>.\<close>

definition lower_char :: "char \<Rightarrow> char" where
  "lower_char c =
     (if CHR ''A'' \<le> c \<and> c \<le> CHR ''Z'' then char_of (of_char c + (32::nat)) else c)"

definition lower :: "string \<Rightarrow> string" where
  "lower s = map lower_char s"

text \<open>
  \<open>str.strip\<close> with no argument removes leading and trailing whitespace: tab, line
  feed, vertical tab, form feed, carriage return, the separators \<open>0x1C\<close> to \<open>0x1F\<close>
  and the space.
\<close>

definition is_space :: "char \<Rightarrow> bool" where
  "is_space c =
     ((CHR 0x09 \<le> c \<and> c \<le> CHR 0x0D) \<or> (CHR 0x1C \<le> c \<and> c \<le> CHR 0x20))"

definition strip :: "string \<Rightarrow> string" where
  "strip s = rev (dropWhile is_space (rev (dropWhile is_space s)))"

text \<open>\<open>pat in s\<close> on strings: \<open>pat\<close> occurs in \<open>s\<close> as a contiguous run.\<close>

fun contains :: "string \<Rightarrow> string \<Rightarrow> bool" where
  "contains pat [] = (pat = [])"
| "contains pat (c # cs) = (prefix pat (c # cs) \<or> contains pat cs)"

text \<open>\<open>s.split(sep)\<close> for a one-character separator.\<close>

fun split_on :: "char \<Rightarrow> string \<Rightarrow> string list" where
  "split_on sep [] = [[]]"
| "split_on sep (c # cs) =
     (if c = sep then [] # split_on sep cs
      else (case split_on sep cs of
              [] \<Rightarrow> [[c]]
            | w # ws \<Rightarrow> (c # w) # ws))"

text \<open>\<open>sep.join(parts)\<close>.\<close>

fun join :: "string \<Rightarrow> string list \<Rightarrow> string" where
  "join sep [] = []"
| "join sep [p] = p"
| "join sep (p # q # ps) = p @ sep @ join sep (q # ps)"

subsection \<open>Paths (pathlib)\<close>

text \<open>
  An absolute POSIX path is the list of its parts below the root \<open>/\<close>; the root is
  \<open>[]\<close>. A path that has not been resolved may hold \<open>..\<close> parts.
  \<open>WORKSPACE_DIR\<close> is fixed when the module is loaded
  (\<open>Path(__file__).resolve().parent / "workspace"\<close>); the functions below take it as
  their first argument.
\<close>

type_synonym path = "string list"

definition is_absolute :: "string \<Rightarrow> bool" where
  "is_absolute s = (case s of [] \<Rightarrow> False | c # _ \<Rightarrow> c = CHR ''/'')"

text \<open>Parsing drops empty parts (repeated and trailing slashes) and \<open>.\<close> parts.\<close>

definition parse_parts :: "string \<Rightarrow> string list" where
  "parse_parts s = filter (\<lambda>p. p \<noteq> [] \<and> p \<noteq> ''.'') (split_on CHR ''/'' s)"

text \<open>\<open>base / s\<close>: an absolute right operand replaces the base.\<close>

definition joinpath :: "path \<Rightarrow> string \<Rightarrow> path" where
  "joinpath base s = (if is_absolute s then parse_parts s else base @ parse_parts s)"

text \<open>
  \<open>Path.resolve()\<close> on a file tree without symbolic links: every \<open>..\<close> part removes
  the part before it, and stays at the root when there is none. A NUL character
  makes the underlying system call raise \<open>ValueError\<close> (embedded null byte).
\<close>

fun normalize :: "path \<Rightarrow> string list \<Rightarrow> path" where
  "normalize acc [] = acc"
| "normalize acc (p # ps) =
     (if p = ''..'' then normalize (butlast acc) ps else normalize (acc @ [p]) ps)"

definition resolve :: "path \<Rightarrow> exn + path" where
  "resolve p = (if NUL \<in> set (concat p) then Inl ValueError else Inr (normalize [] p))"

text \<open>\<open>Path.parents\<close>: the ancestors, nearest first, down to the root.\<close>

definition parents :: "path \<Rightarrow> path list" where
  "parents p = map (\<lambda>i. take (length p - i - 1) p) [0..<length p]"

text \<open>
  \<open>p.relative_to(other)\<close> compares parts and raises \<open>ValueError\<close> when \<open>other\<close> is
  not a leading run of \<open>p\<close>. \<open>str\<close> of the empty relative path is \<open>.\<close>.
\<close>

definition relative_to :: "path \<Rightarrow> path \<Rightarrow> exn + string list" where
  "relative_to p other = (if prefix other p then Inr (drop (length other) p) else Inl ValueError)"

definition str_rel :: "string list \<Rightarrow> string" where
  "str_rel ps = (if ps = [] then ''.'' else join ''/'' ps)"

subsection \<open>PathGuard: \<open>safe_workspace_path\<close>\<close>

definition safe_workspace_path :: "path \<Rightarrow> string \<Rightarrow> exn + path" where
  "safe_workspace_path WORKSPACE_DIR rel_path =
     (case resolve (joinpath WORKSPACE_DIR rel_path) of
        Inl e \<Rightarrow> Inl e
      | Inr target \<Rightarrow>
          if WORKSPACE_DIR \<notin> set (parents target) \<and> target \<noteq> WORKSPACE_DIR
          then Inl (HTTPException 400 (Literal ''Invalid path''))
          else Inr target)"

subsection \<open>The file tree\<close>

text \<open>
  The filesystem is a tree of regular files (with their text), directories (their
  entries in the order \<open>iterdir\<close> yields them) and other entries that are neither
  (\<open>is_file\<close> and \<open>is_dir\<close> are both false on them). Symbolic links and permissions
  are not modelled.
\<close>

datatype node = File string | Dir "(string \<times> node) list" | Other

fun lookup :: "node \<Rightarrow> path \<Rightarrow> node option" where
  "lookup n [] = Some n"
| "lookup (Dir es) (p # ps) =
     (case map_of es p of None \<Rightarrow> None | Some c \<Rightarrow> lookup c ps)"
| "lookup (File v) (p # ps) = None"
| "lookup Other (p # ps) = None"

fun is_file_node :: "node \<Rightarrow> bool" where
  "is_file_node (File v) = True"
| "is_file_node (Dir es) = False"
| "is_file_node Other = False"

fun is_dir_node :: "node \<Rightarrow> bool" where
  "is_dir_node (Dir es) = True"
| "is_dir_node (File v) = False"
| "is_dir_node Other = False"

definition path_exists :: "node \<Rightarrow> path \<Rightarrow> bool" where
  "path_exists fs p = (lookup fs p \<noteq> None)"

definition is_file :: "node \<Rightarrow> path \<Rightarrow> bool" where
  "is_file fs p = (case lookup fs p of Some n \<Rightarrow> is_file_node n | None \<Rightarrow> False)"

definition is_dir :: "node \<Rightarrow> path \<Rightarrow> bool" where
  "is_dir fs p = (case lookup fs p of Some n \<Rightarrow> is_dir_node n | None \<Rightarrow> False)"

text \<open>
  \<open>Path.mkdir(parents=True, exist_ok=True)\<close>: missing directories are created; an
  existing directory is left alone; \<open>FileExistsError\<close> when the path itself is not
  a directory, \<open>NotADirectoryError\<close> when an ancestor is not one.
\<close>

fun mkdir_p :: "node \<Rightarrow> path \<Rightarrow> os_error + node" where
  "mkdir_p n [] = (if is_dir_node n then Inr n else Inl FileExistsError)"
| "mkdir_p (Dir es) (p # ps) =
     (case mkdir_p (case map_of es p of None \<Rightarrow> Dir [] | Some c \<Rightarrow> c) ps of
        Inl e \<Rightarrow> Inl e
      | Inr c' \<Rightarrow> Inr (Dir (AList.update p c' es)))"
| "mkdir_p (File v) (p # ps) = Inl NotADirectoryError"
| "mkdir_p Other (p # ps) = Inl NotADirectoryError"

text \<open>
  Opening a canonical path for writing and writing \<open>data\<close>: the file is created
  in an existing directory or truncated. A directory cannot be opened for
  writing; what an entry that is no regular file does with the data is outside
  the tree, and the model reports an error there.
\<close>

fun write_at :: "node \<Rightarrow> path \<Rightarrow> string \<Rightarrow> os_error + node" where
  "write_at (File v) [] data = Inr (File data)"
| "write_at (Dir es) [] data = Inl IsADirectoryError"
| "write_at Other [] data = Inl OtherOSError"
| "write_at (Dir es) (p # ps) data =
     (case map_of es p of
        None \<Rightarrow> if ps = [] then Inr (Dir (AList.update p (File data) es))
                 else Inl FileNotFoundError
      | Some c \<Rightarrow>
          (case write_at c ps data of
             Inl e \<Rightarrow> Inl e
           | Inr c' \<Rightarrow> Inr (Dir (AList.update p c' es))))"
| "write_at (File v) (p # ps) data = Inl NotADirectoryError"
| "write_at Other (p # ps) data = Inl NotADirectoryError"

text \<open>
  Text mode with \<open>newline=None\<close>. Writing stores the text as it is (the line
  separator of a POSIX host is the line feed). Reading translates every
  carriage return followed by a line feed, and every other carriage return, to
  one line feed.
\<close>

fun universal_newlines :: "string \<Rightarrow> string" where
  "universal_newlines [] = []"
| "universal_newlines [c] = (if c = CR then [LF] else [c])"
| "universal_newlines (c # d # cs) =
     (if c = CR then (if d = LF then LF # universal_newlines cs
                      else LF # universal_newlines (d # cs))
      else c # universal_newlines (d # cs))"

definition write_text :: "node \<Rightarrow> path \<Rightarrow> string \<Rightarrow> os_error + node" where
  "write_text fs p data = write_at fs p data"

definition read_text :: "node \<Rightarrow> path \<Rightarrow> os_error + string" where
  "read_text fs p =
     (case lookup fs p of
        Some (File v) \<Rightarrow> Inr (universal_newlines v)
      | Some (Dir es) \<Rightarrow> Inl IsADirectoryError
      | Some Other \<Rightarrow> Inl OtherOSError
      | None \<Rightarrow> Inl FileNotFoundError)"

text \<open>
  The kernel's walk along a path that may hold \<open>..\<close> parts (the path \<open>open\<close>
  receives in \<open>upload_files\<close> is not resolved): every directory passed through
  must exist; \<open>..\<close> moves to the parent. The result is the canonical path of the
  last part, which need not exist.
\<close>

fun kernel_walk :: "node \<Rightarrow> path \<Rightarrow> string list \<Rightarrow> os_error + path" where
  "kernel_walk fs cur [] = Inr cur"
| "kernel_walk fs cur (p # ps) =
     (case lookup fs cur of
        None \<Rightarrow> Inl FileNotFoundError
      | Some n \<Rightarrow>
          if \<not> is_dir_node n then Inl NotADirectoryError
          else if p = ''..'' then kernel_walk fs (butlast cur) ps
          else kernel_walk fs (cur @ [p]) ps)"

text \<open>\<open>path.open("wb")\<close> followed by copying \<open>data\<close> into the file.\<close>

definition open_wb :: "node \<Rightarrow> path \<Rightarrow> string \<Rightarrow> exn + node" where
  "open_wb fs p data =
     (if NUL \<in> set (concat p) then Inl ValueError
      else case kernel_walk fs [] p of
             Inl e \<Rightarrow> Inl (OSError e)
           | Inr q \<Rightarrow> (case write_at fs q data of
                         Inl e \<Rightarrow> Inl (OSError e)
                       | Inr fs' \<Rightarrow> Inr fs'))"

subsection \<open>\<open>list_directory\<close> and \<open>GET /files\<close>\<close>

text \<open>
  One dictionary of the tree: \<open>type\<close>, \<open>name\<close>, \<open>path\<close>, and \<open>children\<close> when the
  key is present.
\<close>

datatype entry =
  Entry (etype: string) (ename: string) (epath: string) (children: "entry list option")

text \<open>\<open>d.get("children", [])\<close>.\<close>

definition get_children :: "entry \<Rightarrow> entry list" where
  "get_children d = (case children d of Some cs \<Rightarrow> cs | None \<Rightarrow> [])"

text \<open>The key of \<open>sorted\<close>: \<open>(p.is_file(), p.name.lower())\<close>.\<close>

definition sort_key_of :: "string \<times> node \<Rightarrow> bool \<times> string" where
  "sort_key_of = (\<lambda>(name, child). (is_file_node child, lower name))"

text \<open>
  \<open>sorted(path.iterdir(), key=...)\<close>: Python's sort is stable, as \<^const>\<open>sort_key\<close>
  is; tuples and strings compare lexicographically.
\<close>

definition sorted_iterdir :: "(string \<times> node) list \<Rightarrow> (string \<times> node) list" where
  "sorted_iterdir es = sort_key sort_key_of es"

lemma node_size_in_dir:
  "(name, c) \<in> set es \<Longrightarrow> size c < size (Dir es)"
  by (induction es) auto

text \<open>
  \<open>list_directory(path)\<close> is called with \<open>WORKSPACE_DIR\<close> and, from itself, with
  directories below it: \<open>path\<close> is \<open>WORKSPACE_DIR\<close> followed by the parts \<open>rel\<close>,
  so \<open>child.relative_to(WORKSPACE_DIR)\<close> is \<open>rel\<close> followed by the child's name
  and cannot raise. The second argument holds the entries of the directory at
  \<open>path\<close>.
\<close>

function list_directory :: "string list \<Rightarrow> (string \<times> node) list \<Rightarrow> entry" where
  "list_directory rel es =
     Entry ''folder'' ''workspace'' ''''
       (Some (map (\<lambda>(name, child).
                     case child of
                       Dir ces \<Rightarrow>
                         Entry ''folder'' name (str_rel (rel @ [name]))
                           (Some (get_children (list_directory (rel @ [name]) ces)))
                     | File v \<Rightarrow> Entry ''file'' name (str_rel (rel @ [name])) None
                     | Other \<Rightarrow> Entry ''file'' name (str_rel (rel @ [name])) None)
                  (sorted_iterdir es)))"
  by pat_completeness auto
termination
proof (relation "measure (\<lambda>(rel, es). size (Dir es))")
  show "wf (measure (\<lambda>(rel, es). size (Dir es)))" by simp
next
  fix rel :: "string list" and es :: "(string \<times> node) list" and x name child ces
  assume "x \<in> set (sorted_iterdir es)" and "(name, child) = x" and "child = Dir ces"
  then have "(name, Dir ces) \<in> set es"
    by (simp add: sorted_iterdir_def)
  then have "size (Dir ces) < size (Dir es)"
    by (rule node_size_in_dir)
  then show "((rel @ [name], ces), (rel, es)) \<in> measure (\<lambda>(rel, es). size (Dir es))"
    by simp
qed

declare list_directory.simps [simp del]

definition get_files :: "path \<Rightarrow> node \<Rightarrow> exn + entry" where
  "get_files WORKSPACE_DIR fs =
     (case lookup fs WORKSPACE_DIR of
        None \<Rightarrow> Inl (OSError FileNotFoundError)
      | Some (Dir es) \<Rightarrow> Inr (list_directory [] es)
      | Some (File v) \<Rightarrow> Inl (OSError NotADirectoryError)
      | Some Other \<Rightarrow> Inl (OSError NotADirectoryError))"

subsection \<open>\<open>POST /files/open\<close>, \<open>/files/save\<close>, \<open>/files/upload\<close>\<close>

text \<open>
  The handlers take \<open>WORKSPACE_DIR\<close>, the file tree and the fields of the request.
  A handler that writes returns the tree it leaves behind, also when it raises.
  \<open>open_file\<close> answers \<open>{"path": req.path, "content": content}\<close>, \<open>save_file\<close>
  answers \<open>{"ok": True}\<close>, \<open>upload_files\<close> answers \<open>{"stored": stored}\<close>.
\<close>

definition open_file :: "path \<Rightarrow> node \<Rightarrow> string \<Rightarrow> exn + string \<times> string" where
  "open_file WORKSPACE_DIR fs req_path =
     (case safe_workspace_path WORKSPACE_DIR req_path of
        Inl e \<Rightarrow> Inl e
      | Inr path \<Rightarrow>
          if \<not> path_exists fs path \<or> \<not> is_file fs path
          then Inl (HTTPException 404 (Literal ''File not found''))
          else (case read_text fs path of
                  Inl e \<Rightarrow> Inl (HTTPException 500 (StrOf e))
                | Inr content \<Rightarrow> Inr (req_path, content)))"

definition save_file :: "path \<Rightarrow> node \<Rightarrow> string \<Rightarrow> string \<Rightarrow> (exn + bool) \<times> node" where
  "save_file WORKSPACE_DIR fs req_path req_content =
     (case safe_workspace_path WORKSPACE_DIR req_path of
        Inl e \<Rightarrow> (Inl e, fs)
      | Inr path \<Rightarrow>
          (case mkdir_p fs (butlast path) of
             Inl e \<Rightarrow> (Inl (OSError e), fs)
           | Inr fs1 \<Rightarrow>
               (case write_text fs1 path req_content of
                  Inl e \<Rightarrow> (Inl (HTTPException 500 (StrOf e)), fs1)
                | Inr fs2 \<Rightarrow> (Inr True, fs2))))"

text \<open>
  The loop of \<open>upload_files\<close> over the uploaded files, each a filename with its
  data; \<open>stored\<close> accumulates. An exception leaves the loop with the files
  written so far in place.
\<close>

fun store_files ::
  "path \<Rightarrow> path \<Rightarrow> (string \<times> string) list \<Rightarrow> string list \<Rightarrow> node
    \<Rightarrow> (exn + string list) \<times> node" where
  "store_files WORKSPACE_DIR destination_dir [] stored fs = (Inr stored, fs)"
| "store_files WORKSPACE_DIR destination_dir ((filename, data) # files) stored fs =
     (let out_path = joinpath destination_dir filename in
      case open_wb fs out_path data of
        Inl e \<Rightarrow> (Inl e, fs)
      | Inr fs' \<Rightarrow>
          (case relative_to out_path WORKSPACE_DIR of
             Inl e \<Rightarrow> (Inl e, fs')
           | Inr r \<Rightarrow>
               store_files WORKSPACE_DIR destination_dir files (stored @ [str_rel r]) fs'))"

definition upload_files ::
  "path \<Rightarrow> node \<Rightarrow> (string \<times> string) list \<Rightarrow> string \<Rightarrow> (exn + string list) \<times> node" where
  "upload_files WORKSPACE_DIR fs files dest =
     (case safe_workspace_path WORKSPACE_DIR dest of
        Inl e \<Rightarrow> (Inl e, fs)
      | Inr destination_dir \<Rightarrow>
          (case mkdir_p fs destination_dir of
             Inl e \<Rightarrow> (Inl (OSError e), fs)
           | Inr fs1 \<Rightarrow> store_files WORKSPACE_DIR destination_dir files [] fs1))"

subsection \<open>Subprocesses (\<open>subprocess.run\<close>)\<close>

text \<open>
  What the host makes of a spawn:
  \<^item> the program cannot be found: \<open>FileNotFoundError\<close>, with its \<open>str(e)\<close>;
  \<^item> \<open>subprocess.run\<close> raises something else (the program is not executable, the
    output is not valid text);
  \<^item> the program runs: it exits after some time or never, and by every time it
    has written some text to its standard output and standard error.
\<close>

datatype process =
  NoSuchCommand string
  | Fails
  | Runs "real option" "real \<Rightarrow> string \<times> string"


text \<open>
  \<open>subprocess.run(..., timeout=timeout)\<close> returns the completed process with all
  its output, or kills the child at the timeout and raises \<open>TimeoutExpired\<close>,
  which carries the output read until then.
\<close>

datatype run_result =
  CompletedProcess string string
  | TimeoutExpired string string
  | FileNotFound string
  | OtherException

definition subprocess_run :: "process \<Rightarrow> int \<Rightarrow> run_result" where
  "subprocess_run proc timeout =
     (case proc of
        NoSuchCommand msg \<Rightarrow> FileNotFound msg
      | Fails \<Rightarrow> OtherException
      | Runs d out \<Rightarrow>
          (case d of
             None \<Rightarrow> TimeoutExpired (fst (out (real_of_int timeout)))
                       (snd (out (real_of_int timeout)))
           | Some t \<Rightarrow>
               if t \<le> real_of_int timeout then CompletedProcess (fst (out t)) (snd (out t))
               else TimeoutExpired (fst (out (real_of_int timeout)))
                      (snd (out (real_of_int timeout)))))"

text \<open>
  One call of \<open>subprocess.run\<close>: \<open>args\<close>, \<open>cwd\<close>, \<open>timeout\<close>, \<open>input\<close>. The trace
  records the scratch directory, the files written to it and every spawn, in
  order. A host answers a spawn from the trace so far, so a run stage may depend
  on what the compile stage before it left behind.
\<close>

datatype invocation = Invocation "string list" string int "string option"

datatype event =
  MkTmp string
  | Wrote string string
  | Spawned invocation
  | RmTmp string

type_synonym host = "event list \<Rightarrow> invocation \<Rightarrow> process"

subsection \<open>\<open>_run_subprocess\<close>\<close>

definition run_subprocess ::
  "host \<Rightarrow> event list \<Rightarrow> string list \<Rightarrow> string \<Rightarrow> int \<Rightarrow> string option
    \<Rightarrow> (exn + string \<times> string) \<times> event list" where
  "run_subprocess host tr args cwd timeout_sec input_text =
     (let call = Invocation args cwd timeout_sec input_text in
      ((case subprocess_run (host tr call) timeout_sec of
          CompletedProcess out err \<Rightarrow> Inr (out, err)
        | TimeoutExpired out err \<Rightarrow> Inr ('''', ''Execution timed out'')
        | FileNotFound msg \<Rightarrow> Inr ('''', ''Command not found: '' @ msg)
        | OtherException \<Rightarrow> Inl OtherError),
       tr @ [Spawned call]))"

subsection \<open>\<open>POST /run/python\<close> and \<open>POST /run\<close>\<close>

text \<open>The answer \<open>{"stdout": ..., "stderr": ...}\<close>.\<close>

datatype exec_result = ExecResult (stdout: string) (stderr: string)

text \<open>\<open>req.timeout or 10\<close> on an optional integer: \<open>None\<close> and \<open>0\<close> are falsy.\<close>

definition timeout_or :: "int option \<Rightarrow> int \<Rightarrow> int" where
  "timeout_or t dflt = (case t of None \<Rightarrow> dflt | Some v \<Rightarrow> if v = 0 then dflt else v)"

text \<open>
  \<open>str(tmp_path / name)\<close> for the scratch directory, whose name has no trailing
  slash, and a plain file name.
\<close>

definition in_dir :: "string \<Rightarrow> string \<Rightarrow> string" where
  "in_dir tmp_path name = tmp_path @ ''/'' @ name"

text \<open>
  The handlers take the host, the name \<open>tempfile.TemporaryDirectory()\<close> picks,
  and the fields of the request. They return the answer or the exception, and
  the trace; the scratch directory is removed on every way out of the \<open>with\<close>
  block.
\<close>

definition run_python ::
  "host \<Rightarrow> string \<Rightarrow> string \<Rightarrow> string option \<Rightarrow> int option
    \<Rightarrow> (exn + exec_result) \<times> event list" where
  "run_python host tmpdir req_code req_stdin req_timeout =
     (let tmp_path = tmpdir;
          code_path = in_dir tmp_path ''main.py'';
          tr1 = [MkTmp tmpdir, Wrote code_path req_code]
      in case run_subprocess host tr1 [''python'', code_path] tmp_path
                (timeout_or req_timeout 10) req_stdin of
           (Inl e, tr2) \<Rightarrow> (Inl e, tr2 @ [RmTmp tmpdir])
         | (Inr (out, err), tr2) \<Rightarrow>
             if contains ''not found'' (lower err)
             then (case run_subprocess host tr2 [''python3'', code_path] tmp_path
                          (timeout_or req_timeout 10) req_stdin of
                     (Inl e, tr3) \<Rightarrow> (Inl e, tr3 @ [RmTmp tmpdir])
                   | (Inr (out', err'), tr3) \<Rightarrow>
                       (Inr (ExecResult out' err'), tr3 @ [RmTmp tmpdir]))
             else (Inr (ExecResult out err), tr2 @ [RmTmp tmpdir]))"

text \<open>
  The branches of \<open>run_code\<close>, one per language, from the trace \<open>tr0\<close> at the
  start of the \<open>with\<close> block.
\<close>

definition run_code_python ::
  "host \<Rightarrow> event list \<Rightarrow> string \<Rightarrow> string \<Rightarrow> (exn + exec_result) \<times> event list" where
  "run_code_python host tr0 tmp_path code =
     (let code_path = in_dir tmp_path ''main.py'';
          tr1 = tr0 @ [Wrote code_path code]
      in case run_subprocess host tr1 [''python'', code_path] tmp_path 10 None of
           (Inl e, tr2) \<Rightarrow> (Inl e, tr2)
         | (Inr (out, err), tr2) \<Rightarrow>
             if contains ''not found'' (lower err)
             then (case run_subprocess host tr2 [''python3'', code_path] tmp_path 10 None of
                     (Inl e, tr3) \<Rightarrow> (Inl e, tr3)
                   | (Inr (out', err'), tr3) \<Rightarrow> (Inr (ExecResult out' err'), tr3))
             else (Inr (ExecResult out err), tr2))"

definition run_code_c ::
  "host \<Rightarrow> event list \<Rightarrow> string \<Rightarrow> string \<Rightarrow> (exn + exec_result) \<times> event list" where
  "run_code_c host tr0 tmp_path code =
     (let code_path = in_dir tmp_path ''main.c'';
          tr1 = tr0 @ [Wrote code_path code]
      in case run_subprocess host tr1
                [''gcc'', code_path, ''-O2'', ''-std=c11'', ''-o'', ''main''] tmp_path 10 None of
           (Inl e, tr2) \<Rightarrow> (Inl e, tr2)
         | (Inr (unused, compile_err), tr2) \<Rightarrow>
             if compile_err \<noteq> [] then (Inr (ExecResult '''' compile_err), tr2)
             else (case run_subprocess host tr2 [in_dir tmp_path ''main''] tmp_path 10 None of
                     (Inl e, tr3) \<Rightarrow> (Inl e, tr3)
                   | (Inr (out, err), tr3) \<Rightarrow> (Inr (ExecResult out err), tr3)))"

definition run_code_cpp ::
  "host \<Rightarrow> event list \<Rightarrow> string \<Rightarrow> string \<Rightarrow> (exn + exec_result) \<times> event list" where
  "run_code_cpp host tr0 tmp_path code =
     (let code_path = in_dir tmp_path ''main.cpp'';
          tr1 = tr0 @ [Wrote code_path code]
      in case run_subprocess host tr1
                [''g++'', code_path, ''-O2'', ''-std=c++17'', ''-o'', ''main''] tmp_path 10 None of
           (Inl e, tr2) \<Rightarrow> (Inl e, tr2)
         | (Inr (unused, compile_err), tr2) \<Rightarrow>
             if compile_err \<noteq> [] then (Inr (ExecResult '''' compile_err), tr2)
             else (case run_subprocess host tr2 [in_dir tmp_path ''main''] tmp_path 10 None of
                     (Inl e, tr3) \<Rightarrow> (Inl e, tr3)
                   | (Inr (out, err), tr3) \<Rightarrow> (Inr (ExecResult out err), tr3)))"

definition run_code_javascript ::
  "host \<Rightarrow> event list \<Rightarrow> string \<Rightarrow> string \<Rightarrow> (exn + exec_result) \<times> event list" where
  "run_code_javascript host tr0 tmp_path code =
     (let code_path = in_dir tmp_path ''main.js'';
          tr1 = tr0 @ [Wrote code_path code]
      in case run_subprocess host tr1 [''node'', code_path] tmp_path 10 None of
           (Inl e, tr2) \<Rightarrow> (Inl e, tr2)
         | (Inr (out, err), tr2) \<Rightarrow> (Inr (ExecResult out err), tr2))"

definition run_code_java ::
  "host \<Rightarrow> event list \<Rightarrow> string \<Rightarrow> string \<Rightarrow> (exn + exec_result) \<times> event list" where
  "run_code_java host tr0 tmp_path code =
     (let code_path = in_dir tmp_path ''Main.java'';
          tr1 = tr0 @ [Wrote code_path code]
      in case run_subprocess host tr1 [''javac'', code_path] tmp_path 10 None of
           (Inl e, tr2) \<Rightarrow> (Inl e, tr2)
         | (Inr (unused, compile_err), tr2) \<Rightarrow>
             if compile_err \<noteq> [] then (Inr (ExecResult '''' compile_err), tr2)
             else (case run_subprocess host tr2 [''java'', ''-cp'', tmp_path, ''Main'']
                          tmp_path 10 None of
                     (Inl e, tr3) \<Rightarrow> (Inl e, tr3)
                   | (Inr (out, err), tr3) \<Rightarrow> (Inr (ExecResult out err), tr3)))"

definition run_code ::
  "host \<Rightarrow> string \<Rightarrow> string \<Rightarrow> string \<Rightarrow> (exn + exec_result) \<times> event list" where
  "run_code host tmpdir req_language req_code =
     (let language = strip (lower req_language);
          code = req_code;
          tmp_path = tmpdir;
          tr0 = [MkTmp tmpdir];
          (r, tr) =
            (if language \<in> set [''python'', ''py''] then run_code_python host tr0 tmp_path code
             else if language \<in> set [''c''] then run_code_c host tr0 tmp_path code
             else if language \<in> set [''cpp'', ''c++''] then run_code_cpp host tr0 tmp_path code
             else if language \<in> set [''javascript'', ''js'', ''node'']
               then run_code_javascript host tr0 tmp_path code
             else if language \<in> set [''java''] then run_code_java host tr0 tmp_path code
             else (Inl (HTTPException 400
                     (Literal ''Unsupported language. Use python, c, cpp, javascript, or java'')),
                   tr0))
      in (r, tr @ [RmTmp tmpdir]))"

text \<open>
  The pipeline table of the specification, read off the branches above for the
  statements below: the source file, the compile stage of the compiled
  languages, and the run stage, by normalised language name.
\<close>

definition source_name :: "string \<Rightarrow> string" where
  "source_name language =
     (if language \<in> set [''python'', ''py''] then ''main.py''
      else if language = ''c'' then ''main.c''
      else if language \<in> set [''cpp'', ''c++''] then ''main.cpp''
      else if language \<in> set [''javascript'', ''js'', ''node''] then ''main.js''
      else ''Main.java'')"

definition compile_stage :: "string \<Rightarrow> string \<Rightarrow> string list" where
  "compile_stage tmpdir language =
     (if language = ''c''
        then [''gcc'', in_dir tmpdir ''main.c'', ''-O2'', ''-std=c11'', ''-o'', ''main'']
      else if language \<in> set [''cpp'', ''c++'']
        then [''g++'', in_dir tmpdir ''main.cpp'', ''-O2'', ''-std=c++17'', ''-o'', ''main'']
      else [''javac'', in_dir tmpdir ''Main.java''])"

definition run_stage :: "string \<Rightarrow> string \<Rightarrow> string list" where
  "run_stage tmpdir language =
     (if language \<in> set [''python'', ''py''] then [''python'', in_dir tmpdir ''main.py'']
      else if language \<in> set [''c'', ''cpp'', ''c++''] then [in_dir tmpdir ''main'']
      else if language \<in> set [''javascript'', ''js'', ''node'']
        then [''node'', in_dir tmpdir ''main.js'']
      else [''java'', ''-cp'', tmpdir, ''Main''])"

definition compiled_languages :: "string list" where
  "compiled_languages = [''c'', ''cpp'', ''c++'', ''java'']"


text \<open>\<open>{"stdout": stdout, "stderr": stderr}\<close> of a stage that returned.\<close>

definition as_result :: "exn + string \<times> string \<Rightarrow> exn + exec_result" where
  "as_result r = (case r of Inl e \<Rightarrow> Inl e | Inr (out, err) \<Rightarrow> Inr (ExecResult out err))"

subsection \<open>The interactive session: \<open>ws_python\<close>\<close>














subsection \<open>The pump tasks\<close>










subsection \<open>A small workspace for concrete runs\<close>

definition example_root :: path where
  "example_root = [''srv'', ''app'', ''workspace'']"

definition example_tree :: node where
  "example_tree =
     Dir [(''srv'', Dir [(''app'', Dir [(''workspace'',
       Dir [(''a.txt'', File ''hello''), (''b'', Dir [])])])])]"


definition warning_host :: host where
  "warning_host =
     (\<lambda>tr call. case call of
        Invocation args cwd t i \<Rightarrow>
          if hd args = ''gcc'' then Runs (Some 1) (\<lambda>t. ([], ''main.c:1: warning: unused''))
          else Runs (Some 1) (\<lambda>t. (''hello'', [])))"

definition complaining_host :: host where
  "complaining_host = (\<lambda>tr call. Runs (Some 1) (\<lambda>t. (''searching'', ''Widget Not Found'')))"

definition only_python3_host :: host where
  "only_python3_host =
     (\<lambda>tr call. case call of
        Invocation args cwd t i \<Rightarrow>
          if hd args = ''python'' then NoSuchCommand ''python''
          else Runs (Some 1) (\<lambda>t. (''1'', [])))"

section \<open>Properties\<close>

subsection \<open>Paths\<close>






subsection \<open>Saving and opening\<close>







subsection \<open>The tree listing\<close>


















subsection \<open>Uploads\<close>

text \<open>
  C2, at a failing input. \<open>upload_files\<close> passes the destination through
  \<open>safe_workspace_path\<close>, and then joins each client-supplied filename to it
  without resolving the result. An upload to the workspace root of a file named
  \<open>../evil.txt\<close> is accepted, and the file is stored beside the workspace
  directory, outside it.
\<close>

theorem upload_escapes_workspace:
  "upload_files example_root example_tree [(''../evil.txt'', ''data'')] ''''
     = (Inr [''../evil.txt''],
        Dir [(''srv'', Dir [(''app'',
          Dir [(''workspace'', Dir [(''a.txt'', File ''hello''), (''b'', Dir [])]),
               (''evil.txt'', File ''data'')])])])
   \<and> \<not> prefix example_root [''srv'', ''app'', ''evil.txt'']"
  by code_simp

subsection \<open>One-shot execution\<close>

lemma contains_iff_sublist: "contains pat s \<longleftrightarrow> sublist pat s"
  by (induction s) (auto simp: sublist_Cons_right)





text \<open>
  C4. For the compiled languages (\<open>c\<close>, \<open>cpp\<close> or \<open>c++\<close>, \<open>java\<close>), \<open>run_code\<close> writes
  the source and runs the compile stage first. When that stage returns with a
  standard error that is not empty, the answer is the empty standard output
  with that standard error, and the trace holds the compile stage as its only
  spawn: the run stage is not invoked. When the standard error is empty, the
  run stage is spawned next and the answer is what it returns.
\<close>

theorem compile_gate:
  assumes "strip (lower req_language) \<in> set compiled_languages"
    and "fst (run_subprocess host
                [MkTmp tmpdir,
                 Wrote (in_dir tmpdir (source_name (strip (lower req_language)))) code]
                (compile_stage tmpdir (strip (lower req_language))) tmpdir 10 None)
         = Inr (out, compile_err)"
  shows "run_code host tmpdir req_language code =
     (let language = strip (lower req_language);
          tr1 = [MkTmp tmpdir, Wrote (in_dir tmpdir (source_name language)) code];
          compile = Invocation (compile_stage tmpdir language) tmpdir 10 None;
          run = Invocation (run_stage tmpdir language) tmpdir 10 None
      in if compile_err \<noteq> []
         then (Inr (ExecResult '''' compile_err), tr1 @ [Spawned compile, RmTmp tmpdir])
         else (as_result (fst (run_subprocess host (tr1 @ [Spawned compile])
                                 (run_stage tmpdir language) tmpdir 10 None)),
               tr1 @ [Spawned compile, Spawned run, RmTmp tmpdir]))"
proof -
  consider (c) "strip (lower req_language) = ''c''"
    | (cpp) "strip (lower req_language) = ''cpp''"
    | (cxx) "strip (lower req_language) = ''c++''"
    | (java) "strip (lower req_language) = ''java''"
    using assms(1) by (auto simp: compiled_languages_def)
  then show ?thesis
  proof cases
    case c
    show ?thesis
      using assms(2) unfolding c
      by (simp add: run_code_def c run_code_c_def source_name_def compile_stage_def
          run_stage_def run_subprocess_def Let_def as_result_def split: run_result.splits)
  next
    case cpp
    show ?thesis
      using assms(2) unfolding cpp
      by (simp add: run_code_def cpp run_code_cpp_def source_name_def compile_stage_def
          run_stage_def run_subprocess_def Let_def as_result_def split: run_result.splits)
  next
    case cxx
    show ?thesis
      using assms(2) unfolding cxx
      by (simp add: run_code_def cxx run_code_cpp_def source_name_def compile_stage_def
          run_stage_def run_subprocess_def Let_def as_result_def split: run_result.splits)
  next
    case java
    show ?thesis
      using assms(2) unfolding java
      by (simp add: run_code_def java run_code_java_def source_name_def compile_stage_def
          run_stage_def run_subprocess_def Let_def as_result_def split: run_result.splits)
  qed
qed

theorem compile_gate_witness:
  "run_code warning_host ''/tmp/x'' ''C'' ''int main(){}''
     = (Inr (ExecResult '''' ''main.c:1: warning: unused''),
        [MkTmp ''/tmp/x'', Wrote ''/tmp/x/main.c'' ''int main(){}'',
         Spawned (Invocation
           [''gcc'', ''/tmp/x/main.c'', ''-O2'', ''-std=c11'', ''-o'', ''main''] ''/tmp/x'' 10 None),
         RmTmp ''/tmp/x''])"
proof -
  have l: "strip (lower ''C'') = ''c''"
    by code_simp
  have m: "strip (lower ''C'') \<in> set compiled_languages"
    unfolding l by (simp add: compiled_languages_def)
  have r: "fst (run_subprocess warning_host
                [MkTmp ''/tmp/x'',
                 Wrote (in_dir ''/tmp/x'' (source_name (strip (lower ''C'')))) ''int main(){}'']
                (compile_stage ''/tmp/x'' (strip (lower ''C''))) ''/tmp/x'' 10 None)
         = Inr ([], ''main.c:1: warning: unused'')"
    unfolding l
    by (simp add: run_subprocess_def Let_def warning_host_def compile_stage_def
        subprocess_run_def)
  show ?thesis
    using compile_gate [OF m r]
    by (simp add: l Let_def source_name_def compile_stage_def in_dir_def)
qed




text \<open>
  C10. At both python endpoints: when the first run, under \<open>python\<close>, returns and
  its standard error holds \<open>not found\<close> in any case, the code is run a second
  time under \<open>python3\<close> with the same file, timeout and input, and the answer is
  what the second run returns. This does not depend on why the text is there:
  it may be the message of a missing interpreter or text the program wrote
  itself, and then the program has run twice.
\<close>

theorem python_retry:
  "(let code_path = in_dir tmpdir ''main.py'';
        tr1 = [MkTmp tmpdir, Wrote code_path code];
        t = timeout_or req_timeout 10;
        first = Invocation [''python'', code_path] tmpdir t req_stdin;
        second = Invocation [''python3'', code_path] tmpdir t req_stdin
    in fst (run_subprocess host tr1 [''python'', code_path] tmpdir t req_stdin) = Inr (out, err)
         \<and> sublist ''not found'' (lower err)
       \<longrightarrow> run_python host tmpdir code req_stdin req_timeout
             = (as_result (fst (run_subprocess host (tr1 @ [Spawned first])
                                  [''python3'', code_path] tmpdir t req_stdin)),
                tr1 @ [Spawned first, Spawned second, RmTmp tmpdir]))
   \<and> (let code_path = in_dir tmpdir ''main.py'';
        tr1 = [MkTmp tmpdir, Wrote code_path code];
        first = Invocation [''python'', code_path] tmpdir 10 None;
        second = Invocation [''python3'', code_path] tmpdir 10 None
    in strip (lower req_language) \<in> set [''python'', ''py'']
         \<and> fst (run_subprocess host tr1 [''python'', code_path] tmpdir 10 None) = Inr (out', err')
         \<and> sublist ''not found'' (lower err')
       \<longrightarrow> run_code host tmpdir req_language code
             = (as_result (fst (run_subprocess host (tr1 @ [Spawned first])
                                  [''python3'', code_path] tmpdir 10 None)),
                tr1 @ [Spawned first, Spawned second, RmTmp tmpdir]))"
proof (intro conjI)
  show "let code_path = in_dir tmpdir ''main.py'';
        tr1 = [MkTmp tmpdir, Wrote code_path code];
        t = timeout_or req_timeout 10;
        first = Invocation [''python'', code_path] tmpdir t req_stdin;
        second = Invocation [''python3'', code_path] tmpdir t req_stdin
    in fst (run_subprocess host tr1 [''python'', code_path] tmpdir t req_stdin) = Inr (out, err)
         \<and> sublist ''not found'' (lower err)
       \<longrightarrow> run_python host tmpdir code req_stdin req_timeout
             = (as_result (fst (run_subprocess host (tr1 @ [Spawned first])
                                  [''python3'', code_path] tmpdir t req_stdin)),
                tr1 @ [Spawned first, Spawned second, RmTmp tmpdir])"
    by (simp add: Let_def run_python_def run_subprocess_def as_result_def
        contains_iff_sublist split: run_result.splits)
next
  have "run_code host tmpdir req_language code
          = (as_result (fst (run_subprocess host
               ([MkTmp tmpdir, Wrote (in_dir tmpdir ''main.py'') code]
                @ [Spawned (Invocation [''python'', in_dir tmpdir ''main.py''] tmpdir 10 None)])
               [''python3'', in_dir tmpdir ''main.py''] tmpdir 10 None)),
             [MkTmp tmpdir, Wrote (in_dir tmpdir ''main.py'') code]
             @ [Spawned (Invocation [''python'', in_dir tmpdir ''main.py''] tmpdir 10 None),
                Spawned (Invocation [''python3'', in_dir tmpdir ''main.py''] tmpdir 10 None),
                RmTmp tmpdir])"
    if l: "strip (lower req_language) = ''python'' \<or> strip (lower req_language) = ''py''"
      and r: "fst (run_subprocess host [MkTmp tmpdir, Wrote (in_dir tmpdir ''main.py'') code]
                 [''python'', in_dir tmpdir ''main.py''] tmpdir 10 None) = Inr (out', err')"
      and s: "sublist ''not found'' (lower err')"
    using l
  proof
    assume p: "strip (lower req_language) = ''python''"
    show ?thesis
      using r s
      by (simp add: run_code_def p Let_def run_code_python_def run_subprocess_def
          as_result_def contains_iff_sublist split: run_result.splits)
  next
    assume p: "strip (lower req_language) = ''py''"
    show ?thesis
      using r s
      by (simp add: run_code_def p Let_def run_code_python_def run_subprocess_def
          as_result_def contains_iff_sublist split: run_result.splits)
  qed
  then show "let code_path = in_dir tmpdir ''main.py'';
        tr1 = [MkTmp tmpdir, Wrote code_path code];
        first = Invocation [''python'', code_path] tmpdir 10 None;
        second = Invocation [''python3'', code_path] tmpdir 10 None
    in strip (lower req_language) \<in> set [''python'', ''py'']
         \<and> fst (run_subprocess host tr1 [''python'', code_path] tmpdir 10 None) = Inr (out', err')
         \<and> sublist ''not found'' (lower err')
       \<longrightarrow> run_code host tmpdir req_language code
             = (as_result (fst (run_subprocess host (tr1 @ [Spawned first])
                                  [''python3'', code_path] tmpdir 10 None)),
                tr1 @ [Spawned first, Spawned second, RmTmp tmpdir])"
    unfolding Let_def by auto
qed

theorem python_retry_witness:
  "run_python complaining_host ''/tmp/x'' ''import sys'' None None
     = (Inr (ExecResult ''searching'' ''Widget Not Found''),
        [MkTmp ''/tmp/x'', Wrote ''/tmp/x/main.py'' ''import sys'',
         Spawned (Invocation [''python'', ''/tmp/x/main.py''] ''/tmp/x'' 10 None),
         Spawned (Invocation [''python3'', ''/tmp/x/main.py''] ''/tmp/x'' 10 None),
         RmTmp ''/tmp/x''])
   \<and> run_code complaining_host ''/tmp/x'' ''PY'' ''import sys''
     = (Inr (ExecResult ''searching'' ''Widget Not Found''),
        [MkTmp ''/tmp/x'', Wrote ''/tmp/x/main.py'' ''import sys'',
         Spawned (Invocation [''python'', ''/tmp/x/main.py''] ''/tmp/x'' 10 None),
         Spawned (Invocation [''python3'', ''/tmp/x/main.py''] ''/tmp/x'' 10 None),
         RmTmp ''/tmp/x''])"
proof -
  have r: "\<And>tr args cwd t i.
      fst (run_subprocess complaining_host tr args cwd 10 i)
        = Inr (''searching'', ''Widget Not Found'')"
    by (simp add: run_subprocess_def Let_def complaining_host_def subprocess_run_def)
  have s: "sublist ''not found'' (lower ''Widget Not Found'')"
    unfolding contains_iff_sublist [symmetric] by code_simp
  have l: "strip (lower ''PY'') = ''py''"
    by code_simp
  have t: "timeout_or None 10 = 10"
    by (simp add: timeout_or_def)
  show ?thesis
    using python_retry [of "''/tmp/x''" "''import sys''" None None complaining_host
        "''searching''" "''Widget Not Found''" "''PY''" "''searching''" "''Widget Not Found''"]
    by (simp add: Let_def r s l t as_result_def in_dir_def)
qed

subsection \<open>The interactive session\<close>









subsection \<open>Teardown of the session\<close>










subsection \<open>Further properties\<close>

text \<open>
  The guard comes first. When \<open>safe_workspace_path\<close> rejects the client's path,
  \<open>open_file\<close>, \<open>save_file\<close> and \<open>upload_files\<close> (for its destination) fail with the
  same exception, and the two that write leave the file tree as it was.
\<close>

theorem guard_precedes_effects:
  assumes "safe_workspace_path WORKSPACE_DIR p = Inl e"
  shows "open_file WORKSPACE_DIR fs p = Inl e
         \<and> save_file WORKSPACE_DIR fs p c = (Inl e, fs)
         \<and> upload_files WORKSPACE_DIR fs files p = (Inl e, fs)"
  using assms
  by (simp add: open_file_def save_file_def upload_files_def)

theorem guard_precedes_effects_witness:
  "open_file example_root example_tree ''../x''
     = Inl (HTTPException 400 (Literal ''Invalid path''))
   \<and> save_file example_root example_tree ''../x'' ''data''
     = (Inl (HTTPException 400 (Literal ''Invalid path'')), example_tree)
   \<and> upload_files example_root example_tree [(''f.txt'', ''data'')] ''../x''
     = (Inl (HTTPException 400 (Literal ''Invalid path'')), example_tree)"
proof -
  have g: "safe_workspace_path example_root ''../x''
             = Inl (HTTPException 400 (Literal ''Invalid path''))"
    by code_simp
  show ?thesis
    using guard_precedes_effects [OF g] by simp
qed

lemma lower_append: "lower (a @ b) = lower a @ lower b"
  by (simp add: lower_def)

lemma command_not_found_matches:
  "contains ''not found'' (lower (''Command not found: '' @ msg))"
proof -
  have l: "lower ''Command not found: '' = ''command '' @ ''not found'' @ '': ''"
    by code_simp
  have "lower (''Command not found: '' @ msg)
          = ''command '' @ ''not found'' @ ('': '' @ lower msg)"
    by (simp only: lower_append l append_assoc)
  then have "sublist ''not found'' (lower (''Command not found: '' @ msg))"
    unfolding sublist_def by blast
  then show ?thesis
    by (simp only: contains_iff_sublist)
qed

text \<open>
  A missing interpreter. When the host cannot find \<open>python\<close>, \<open>_run_subprocess\<close>
  returns the standard error \<open>Command not found: ...\<close>, which holds \<open>not found\<close>,
  so \<open>run_python\<close> runs the code under \<open>python3\<close> and answers with that run.
\<close>

theorem missing_python_falls_back:
  assumes "host [MkTmp tmpdir, Wrote (in_dir tmpdir ''main.py'') code]
             (Invocation [''python'', in_dir tmpdir ''main.py''] tmpdir
                (timeout_or req_timeout 10) req_stdin)
           = NoSuchCommand msg"
  shows "run_python host tmpdir code req_stdin req_timeout
     = (as_result (fst (run_subprocess host
           [MkTmp tmpdir, Wrote (in_dir tmpdir ''main.py'') code,
            Spawned (Invocation [''python'', in_dir tmpdir ''main.py''] tmpdir
                       (timeout_or req_timeout 10) req_stdin)]
           [''python3'', in_dir tmpdir ''main.py''] tmpdir (timeout_or req_timeout 10)
           req_stdin)),
        [MkTmp tmpdir, Wrote (in_dir tmpdir ''main.py'') code,
         Spawned (Invocation [''python'', in_dir tmpdir ''main.py''] tmpdir
                    (timeout_or req_timeout 10) req_stdin),
         Spawned (Invocation [''python3'', in_dir tmpdir ''main.py''] tmpdir
                    (timeout_or req_timeout 10) req_stdin),
         RmTmp tmpdir])"
  using assms command_not_found_matches [of msg]
  by (simp add: run_python_def run_subprocess_def Let_def subprocess_run_def as_result_def
      split: run_result.splits)

theorem missing_python_falls_back_witness:
  "run_python only_python3_host ''/tmp/x'' ''print(1)'' None None
     = (Inr (ExecResult ''1'' []),
        [MkTmp ''/tmp/x'', Wrote ''/tmp/x/main.py'' ''print(1)'',
         Spawned (Invocation [''python'', ''/tmp/x/main.py''] ''/tmp/x'' 10 None),
         Spawned (Invocation [''python3'', ''/tmp/x/main.py''] ''/tmp/x'' 10 None),
         RmTmp ''/tmp/x''])"
proof -
  have t: "timeout_or None 10 = 10"
    by (simp add: timeout_or_def)
  have h: "only_python3_host [MkTmp ''/tmp/x'', Wrote (in_dir ''/tmp/x'' ''main.py'') ''print(1)'']
             (Invocation [''python'', in_dir ''/tmp/x'' ''main.py''] ''/tmp/x''
                (timeout_or None 10) None)
           = NoSuchCommand ''python''"
    by (simp add: only_python3_host_def)
  have r: "\<And>tr. fst (run_subprocess only_python3_host tr
                  [''python3'', ''/tmp/x/main.py''] ''/tmp/x'' 10 None) = Inr (''1'', [])"
    by (simp add: run_subprocess_def Let_def only_python3_host_def subprocess_run_def)
  show ?thesis
    using h missing_python_falls_back [of only_python3_host "''/tmp/x''" "''print(1)''"
        None None "''python''"]
    by (simp add: t r as_result_def in_dir_def)
qed

end
